theory Spec2Isabelle
  imports Main "HOL-Library.AList"
begin

section \<open>The GoDaddy API client of external-dns (provider/godaddy/client.go)\<close>

text \<open>
  A shallow embedding of \<^verbatim>\<open>client.go\<close>. The functions of the file are pure functions
  here: what the outside world answers (the HTTP transport, the rate limiter, the random
  source) is read from an environment, indexed by how many calls of each kind have been
  made so far; what the code does to the outside world is returned as a list of events.
  Go's \<^verbatim>\<open>int64\<close> arithmetic is written over \<open>int\<close> with the wrap-around spelled out.
\<close>

subsection \<open>Errors and results\<close>

type_synonym bytes = string

record APIError =
  Code :: string
  Message :: string

datatype error =
    APIErr APIError
  | TransportErr string
  | ContextErr string
  | NumError string string string
  | SyntaxError string
  | UnmarshalTypeError string string
  | MarshalErr string
  | RequestErr string
  | ReadErr string
  | Wrapf string error

text \<open>A Go function either returns or panics.\<close>

datatype 'a outcome = Return 'a | Panic string

definition ErrCodeQuotaExceeded :: string where
  "ErrCodeQuotaExceeded = ''QUOTA_EXCEEDED''"

definition Second :: int where
  "Second = 1000000000"

definition DefaultTimeout :: int where
  "DefaultTimeout = 180 * Second"

text \<open>\<^verbatim>\<open>errors.As(err, &apiErr)\<close> with a target of type \<^verbatim>\<open>*APIError\<close>: the first API
  error in the chain of wrapped errors. Only \<^verbatim>\<open>fmt.Errorf("...%w", err)\<close> wraps.\<close>

fun errors_As :: "error \<Rightarrow> APIError option" where
  "errors_As (APIErr a) = Some a"
| "errors_As (Wrapf m e) = errors_As e"
| "errors_As _ = None"

subsection \<open>Requests, responses, the client\<close>

datatype Context = Background | WithCancel nat

type_synonym http_Header = "(string \<times> string list) list"

text \<open>\<^verbatim>\<open>http.Header\<close>, with its keys in canonical form, as \<^verbatim>\<open>net/http\<close> keeps them;
  \<^verbatim>\<open>Get\<close> gives the first value of a key, or the empty string.\<close>

definition Header_Get :: "http_Header \<Rightarrow> string \<Rightarrow> string" where
  "Header_Get h k = (case map_of h k of Some (v # vs) \<Rightarrow> v | _ \<Rightarrow> [])"

definition Header_Set :: "http_Header \<Rightarrow> string \<Rightarrow> string \<Rightarrow> http_Header" where
  "Header_Set h k v = AList.update k [v] h"

record Request =
  Method :: string
  URL :: string
  ReqHeader :: http_Header
  ReqBody :: bytes
  Ctx :: Context

text \<open>A response as \<^verbatim>\<open>http.Client.Do\<close> hands it over: the body is a stream that has not
  been read yet; reading it gives its bytes or fails. \<open>Conn\<close> names the stream (the number
  of the send that opened it), so that closing it can be observed.\<close>

record Response =
  StatusCode :: int
  RespHeader :: http_Header
  Body :: "error + bytes"
  Conn :: nat

record http_Client =
  http_Timeout :: int

record Limiter =
  limit_every :: int
  burst :: int

datatype Logger = Hooks string

record Client =
  APIKey :: string
  APISecret :: string
  APIEndPoint :: string
  Client :: http_Client
  Ratelimiter :: Limiter
  Logger :: "Logger option"
  Timeout :: int

subsection \<open>The outside world\<close>

text \<open>The environment answers the \<open>k\<close>-th call of each kind. \<open>domainsURI\<close> and the user
  agent string are constants of the package that \<^verbatim>\<open>client.go\<close> uses and does not define;
  \<open>url_ok\<close> says which targets \<^verbatim>\<open>url.Parse\<close> accepts.\<close>

record env =
  transport :: "nat \<Rightarrow> Request \<Rightarrow> error + Response"
  limiter :: "nat \<Rightarrow> Context \<Rightarrow> error option"
  rand63 :: "nat \<Rightarrow> int"
  url_ok :: "string \<Rightarrow> bool"
  domainsURI :: string
  UserAgent :: string

record world =
  sent :: nat
  waited :: nat
  drawn :: nat

datatype event =
    LogRequest Request
  | LogResponse Response
  | Wait Context "error option"
  | RoundTrip nat Request
  | Sleep int
  | LogError string
  | ReadAll nat
  | Close nat

type_synonym 'a run = "'a \<times> world \<times> event list"

text \<open>\<^verbatim>\<open>c.Ratelimiter.Wait(ctx)\<close>: the limiter's answer is an error or nil.\<close>

definition Ratelimiter_Wait :: "env \<Rightarrow> Context \<Rightarrow> world \<Rightarrow> (error option) run" where
  "Ratelimiter_Wait e ctx w =
     (let r = limiter e (waited w) ctx
      in (r, w\<lparr>waited := waited w + 1\<rparr>, [Wait ctx r]))"

text \<open>\<^verbatim>\<open>c.Client.Do(req)\<close>: an error, or a response that is never nil.\<close>

definition Client_Do :: "env \<Rightarrow> Request \<Rightarrow> world \<Rightarrow> (error + Response) run" where
  "Client_Do e req w =
     (let k = sent w;
          r = (case transport e k req of
                 Inl err \<Rightarrow> Inl err
               | Inr resp \<Rightarrow> Inr (resp\<lparr>Conn := k\<rparr>))
      in (r, w\<lparr>sent := k + 1\<rparr>, [RoundTrip k req]))"

subsection \<open>\<^verbatim>\<open>strconv.ParseInt(s, 10, 0)\<close> and \<^verbatim>\<open>rand.Int63n\<close>\<close>

text \<open>Base 10, and bit size 0, which is the size of \<^verbatim>\<open>int\<close>: 64 bits here. An optional
  sign, then digits only; a value outside the \<^verbatim>\<open>int64\<close> range is an error.\<close>

definition digit_val :: "char \<Rightarrow> nat option" where
  "digit_val c =
     (let n = (of_char c :: nat) in if 48 \<le> n \<and> n \<le> 57 then Some (n - 48) else None)"

fun parse_digits :: "string \<Rightarrow> nat \<Rightarrow> nat option" where
  "parse_digits [] acc = Some acc"
| "parse_digits (c # cs) acc =
     (case digit_val c of
        None \<Rightarrow> None
      | Some d \<Rightarrow> parse_digits cs (10 * acc + d))"

definition ParseUint :: "string \<Rightarrow> string \<Rightarrow> error + nat" where
  "ParseUint s0 s =
     (if s = [] then Inl (NumError ''ParseInt'' s0 ''invalid syntax'')
      else case parse_digits s 0 of
             None \<Rightarrow> Inl (NumError ''ParseInt'' s0 ''invalid syntax'')
           | Some n \<Rightarrow>
               if n > 2 ^ 64 - 1 then Inl (NumError ''ParseInt'' s0 ''value out of range'')
               else Inr n)"

definition ParseInt :: "string \<Rightarrow> error + int" where
  "ParseInt s0 =
     (if s0 = [] then Inl (NumError ''ParseInt'' s0 ''invalid syntax'')
      else
        let neg = (hd s0 = CHR ''-'');
            s = (if hd s0 = CHR ''+'' \<or> hd s0 = CHR ''-'' then tl s0 else s0)
        in case ParseUint s0 s of
             Inl err \<Rightarrow> Inl err
           | Inr un \<Rightarrow>
               if \<not> neg \<and> un \<ge> 2 ^ 63 then Inl (NumError ''ParseInt'' s0 ''value out of range'')
               else if neg \<and> un > 2 ^ 63 then Inl (NumError ''ParseInt'' s0 ''value out of range'')
               else Inr (if neg then - int un else int un))"

text \<open>\<^verbatim>\<open>rand.Int63n(n)\<close> panics for \<open>n \<le> 0\<close> and otherwise returns a number in \<open>[0, n)\<close>;
  the environment supplies the raw draw, which is reduced into the interval.\<close>

definition Int63n :: "env \<Rightarrow> int \<Rightarrow> world \<Rightarrow> (int outcome) run" where
  "Int63n e n w =
     (if n \<le> 0 then (Panic ''invalid argument to Int63n'', w, [])
      else (Return (rand63 e (drawn w) mod n), w\<lparr>drawn := drawn w + 1\<rparr>, []))"

text \<open>The value of an \<^verbatim>\<open>int64\<close> expression after wrap-around.\<close>

definition wrap64 :: "int \<Rightarrow> int" where
  "wrap64 x = (x + 2 ^ 63) mod 2 ^ 64 - 2 ^ 63"

subsection \<open>\<^verbatim>\<open>Do\<close>\<close>

text \<open>The sleep of one retry, lines 253 to 256: \<^verbatim>\<open>retryAfter + jitter/2\<close> in \<^verbatim>\<open>int64\<close>, then
  \<^verbatim>\<open>time.Duration(retryAfterSec) * time.Second\<close>, again in \<^verbatim>\<open>int64\<close> (nanoseconds).\<close>

definition sleepTime :: "int \<Rightarrow> int \<Rightarrow> int" where
  "sleepTime retryAfter jitter =
     (let retryAfterSec = wrap64 (retryAfter + jitter div 2)
      in wrap64 (retryAfterSec * Second))"

text \<open>The loop of lines 246 to 264, entered with the loop counter \<open>i\<close> and the response
  in hand. \<open>Inl\<close> is the early \<^verbatim>\<open>return nil, err\<close>; \<open>Inr\<close> is the response the loop ends
  with, by its condition or by \<^verbatim>\<open>break\<close>.\<close>

function retry_loop :: "env \<Rightarrow> Request \<Rightarrow> nat \<Rightarrow> Response \<Rightarrow> world
    \<Rightarrow> ((error + Response) outcome) run" where
  "retry_loop e req i resp w =
     (if i < 3 \<and> StatusCode resp = 429 then
        (case ParseInt (Header_Get (RespHeader resp) ''Retry-After'') of
           Inl err \<Rightarrow>
             (Return (Inr resp), w,
              [LogError ''Rate-limited response did not contain a valid Retry-After header, quota likely exceeded''])
         | Inr retryAfter \<Rightarrow>
             (case Int63n e retryAfter w of
                (Panic m, w1, ev1) \<Rightarrow> (Panic m, w1, ev1)
              | (Return jitter, w1, ev1) \<Rightarrow>
                  (let ev2 = [Sleep (sleepTime retryAfter jitter)];
                       (lim, w3, ev3) = Ratelimiter_Wait e (Ctx req) w1;
                       (r, w4, ev4) = Client_Do e req w3
                   in case r of
                        Inl err \<Rightarrow>
                          (Return (Inl (Wrapf ''doing request after waiting for retry after: '' err)),
                           w4, ev1 @ ev2 @ ev3 @ ev4)
                      | Inr resp' \<Rightarrow>
                          (case retry_loop e req (i + 1) resp' w4 of
                             (r', w5, ev5) \<Rightarrow> (r', w5, ev1 @ ev2 @ ev3 @ ev4 @ ev5)))))
      else (Return (Inr resp), w, []))"
  by pat_completeness auto
termination
  by (relation "measure (\<lambda>(e, req, i, resp, w). 3 - i)") auto

declare retry_loop.simps [simp del]

definition Do :: "env \<Rightarrow> Client \<Rightarrow> Request \<Rightarrow> world \<Rightarrow> ((error + Response) outcome) run" where
  "Do e c req w =
     (let ev0 = (case Logger c of None \<Rightarrow> [] | Some l \<Rightarrow> [LogRequest req]);
          (lim, w1, ev1) = Ratelimiter_Wait e (Ctx req) w;
          (r, w2, ev2) = Client_Do e req w1
      in case r of
           Inl err \<Rightarrow> (Return (Inl err), w2, ev0 @ ev1 @ ev2)
         | Inr resp \<Rightarrow>
             (case retry_loop e req 1 resp w2 of
                (Return (Inr resp'), w3, ev3) \<Rightarrow>
                  (Return (Inr resp'), w3,
                   ev0 @ ev1 @ ev2 @ ev3
                     @ (case Logger c of None \<Rightarrow> [] | Some l \<Rightarrow> [LogResponse resp']))
              | (r', w3, ev3) \<Rightarrow> (r', w3, ev0 @ ev1 @ ev2 @ ev3)))"

subsection \<open>\<^verbatim>\<open>encoding/json\<close>, as far as the client uses it\<close>

text \<open>The decoder of the standard library is not part of the repository. It is modelled
  from its documentation: the JSON grammar (a text with anything but white space after
  its value is a syntax error), and the rules for storing an object into a struct. The
  recursive descent runs on fuel; it is started with more fuel than the text has
  characters, and each call reads a character before it calls again. Bytes above 127
  inside strings are kept as they are.\<close>

datatype json =
    JNull
  | JBool bool
  | JNumber string
  | JString string
  | JArray "json list"
  | JObject "(string \<times> json) list"

definition is_ws :: "char \<Rightarrow> bool" where
  "is_ws c = (c = CHR '' '' \<or> c = CHR 0x09 \<or> c = CHR 0x0A \<or> c = CHR 0x0D)"

definition skip_ws :: "string \<Rightarrow> string" where
  "skip_ws s = dropWhile is_ws s"

definition is_digit :: "char \<Rightarrow> bool" where
  "is_digit c = (digit_val c \<noteq> None)"

definition hex_val :: "char \<Rightarrow> nat option" where
  "hex_val c =
     (let n = (of_char c :: nat)
      in if 48 \<le> n \<and> n \<le> 57 then Some (n - 48)
         else if 97 \<le> n \<and> n \<le> 102 then Some (n - 87)
         else if 65 \<le> n \<and> n \<le> 70 then Some (n - 55)
         else None)"

text \<open>\<^verbatim>\<open>getu4\<close>: the code unit of \<^verbatim>\<open>\uXXXX\<close>, given the text after the backslash.\<close>

definition getu4 :: "string \<Rightarrow> nat option" where
  "getu4 s =
     (if length s < 5 \<or> hd s \<noteq> CHR ''u'' then None
      else case map hex_val (take 4 (tl s)) of
             [Some a, Some b, Some c, Some d] \<Rightarrow> Some (((a * 16 + b) * 16 + c) * 16 + d)
           | _ \<Rightarrow> None)"

definition utf8_encode :: "nat \<Rightarrow> string" where
  "utf8_encode r =
     (if r < 0x80 then [char_of r]
      else if r < 0x800 then [char_of (0xC0 + r div 64), char_of (0x80 + r mod 64)]
      else if r < 0x10000 then
        [char_of (0xE0 + r div 4096), char_of (0x80 + (r div 64) mod 64), char_of (0x80 + r mod 64)]
      else
        [char_of (0xF0 + r div 262144), char_of (0x80 + (r div 4096) mod 64),
         char_of (0x80 + (r div 64) mod 64), char_of (0x80 + r mod 64)])"

definition simple_escape :: "char \<Rightarrow> char option" where
  "simple_escape c =
     (if c = CHR 0x22 \<or> c = CHR 0x5C \<or> c = CHR ''/'' then Some c
      else if c = CHR ''b'' then Some (CHR 0x08)
      else if c = CHR ''f'' then Some (CHR 0x0C)
      else if c = CHR ''n'' then Some (CHR 0x0A)
      else if c = CHR ''r'' then Some (CHR 0x0D)
      else if c = CHR ''t'' then Some (CHR 0x09)
      else None)"

text \<open>The characters of a string literal after its opening quote, unquoted.\<close>

fun parse_chars :: "nat \<Rightarrow> string \<Rightarrow> string \<Rightarrow> (string \<times> string) option" where
  "parse_chars 0 s acc = None"
| "parse_chars (Suc n) s acc =
     (if s = [] then None
      else if hd s = CHR 0x22 then Some (acc, tl s)
      else if hd s = CHR 0x5C then
        (if tl s = [] then None
         else if hd (tl s) = CHR ''u'' then
           (case getu4 (tl s) of
              None \<Rightarrow> None
            | Some rr \<Rightarrow>
                (let rest = drop 6 s
                 in if 0xD800 \<le> rr \<and> rr < 0xE000 then
                      (case (if rest \<noteq> [] \<and> hd rest = CHR 0x5C then getu4 (tl rest) else None) of
                         None \<Rightarrow> parse_chars n rest (acc @ utf8_encode 0xFFFD)
                       | Some rr1 \<Rightarrow>
                           if rr < 0xDC00 \<and> 0xDC00 \<le> rr1 \<and> rr1 < 0xE000 then
                             parse_chars n (drop 6 rest)
                               (acc @ utf8_encode ((rr - 0xD800) * 1024 + (rr1 - 0xDC00) + 0x10000))
                           else parse_chars n rest (acc @ utf8_encode 0xFFFD))
                    else parse_chars n rest (acc @ utf8_encode rr)))
         else
           (case simple_escape (hd (tl s)) of
              None \<Rightarrow> None
            | Some y \<Rightarrow> parse_chars n (drop 2 s) (acc @ [y])))
      else if (of_char (hd s) :: nat) < 0x20 then None
      else parse_chars n (tl s) (acc @ [hd s]))"

definition scan_digits :: "string \<Rightarrow> (string \<times> string) option" where
  "scan_digits s =
     (if takeWhile is_digit s = [] then None
      else Some (takeWhile is_digit s, dropWhile is_digit s))"

definition scan_int_part :: "string \<Rightarrow> (string \<times> string) option" where
  "scan_int_part s =
     (if s = [] then None
      else if hd s = CHR ''0'' then Some (''0'', tl s)
      else scan_digits s)"

definition scan_frac :: "string \<Rightarrow> (string \<times> string) option" where
  "scan_frac s =
     (if s \<noteq> [] \<and> hd s = CHR ''.'' then
        (case scan_digits (tl s) of
           None \<Rightarrow> None
         | Some (ds, r) \<Rightarrow> Some (CHR ''.'' # ds, r))
      else Some ([], s))"

definition scan_exp :: "string \<Rightarrow> (string \<times> string) option" where
  "scan_exp s =
     (if s \<noteq> [] \<and> (hd s = CHR ''e'' \<or> hd s = CHR ''E'') then
        (let t = tl s;
             sg = (if t \<noteq> [] \<and> (hd t = CHR ''+'' \<or> hd t = CHR ''-'') then [hd t] else []);
             u = drop (length sg) t
         in case scan_digits u of
              None \<Rightarrow> None
            | Some (ds, r) \<Rightarrow> Some (hd s # sg @ ds, r))
      else Some ([], s))"

definition scan_number :: "string \<Rightarrow> (string \<times> string) option" where
  "scan_number s =
     (let sg = (if s \<noteq> [] \<and> hd s = CHR ''-'' then ''-'' else [])
      in case scan_int_part (drop (length sg) s) of
           None \<Rightarrow> None
         | Some (ip, r1) \<Rightarrow>
             (case scan_frac r1 of
                None \<Rightarrow> None
              | Some (fp, r2) \<Rightarrow>
                  (case scan_exp r2 of
                     None \<Rightarrow> None
                   | Some (ep, r3) \<Rightarrow> Some (sg @ ip @ fp @ ep, r3))))"

fun parse_value :: "nat \<Rightarrow> string \<Rightarrow> (json \<times> string) option"
  and parse_elems :: "nat \<Rightarrow> string \<Rightarrow> json list \<Rightarrow> (json \<times> string) option"
  and parse_members :: "nat \<Rightarrow> string \<Rightarrow> (string \<times> json) list \<Rightarrow> (json \<times> string) option"
where
  "parse_value 0 s0 = None"
| "parse_value (Suc n) s0 =
     (let s = skip_ws s0
      in if s = [] then None
         else if hd s = CHR ''{'' then
           (let t = skip_ws (tl s)
            in if t \<noteq> [] \<and> hd t = CHR ''}'' then Some (JObject [], tl t)
               else parse_members n t [])
         else if hd s = CHR ''['' then
           (let t = skip_ws (tl s)
            in if t \<noteq> [] \<and> hd t = CHR '']'' then Some (JArray [], tl t)
               else parse_elems n t [])
         else if hd s = CHR 0x22 then
           (case parse_chars (length s) (tl s) [] of
              None \<Rightarrow> None
            | Some (str, r) \<Rightarrow> Some (JString str, r))
         else if take 4 s = ''true'' then Some (JBool True, drop 4 s)
         else if take 5 s = ''false'' then Some (JBool False, drop 5 s)
         else if take 4 s = ''null'' then Some (JNull, drop 4 s)
         else (case scan_number s of
                 None \<Rightarrow> None
               | Some (txt, r) \<Rightarrow> Some (JNumber txt, r)))"
| "parse_elems 0 s0 acc = None"
| "parse_elems (Suc n) s0 acc =
     (case parse_value n s0 of
        None \<Rightarrow> None
      | Some (v, r) \<Rightarrow>
          (let r1 = skip_ws r
           in if r1 = [] then None
              else if hd r1 = CHR '','' then parse_elems n (tl r1) (acc @ [v])
              else if hd r1 = CHR '']'' then Some (JArray (acc @ [v]), tl r1)
              else None))"
| "parse_members 0 s0 acc = None"
| "parse_members (Suc n) s0 acc =
     (let s = skip_ws s0
      in if s = [] \<or> hd s \<noteq> CHR 0x22 then None
         else case parse_chars (length s) (tl s) [] of
                None \<Rightarrow> None
              | Some (k, r) \<Rightarrow>
                  (let r1 = skip_ws r
                   in if r1 = [] \<or> hd r1 \<noteq> CHR '':'' then None
                      else case parse_value n (tl r1) of
                             None \<Rightarrow> None
                           | Some (v, r2) \<Rightarrow>
                               (let r3 = skip_ws r2
                                in if r3 = [] then None
                                   else if hd r3 = CHR '','' then
                                     parse_members n (tl r3) (acc @ [(k, v)])
                                   else if hd r3 = CHR ''}'' then
                                     Some (JObject (acc @ [(k, v)]), tl r3)
                                   else None)))"

definition json_parse :: "bytes \<Rightarrow> error + json" where
  "json_parse b =
     (case parse_value (Suc (length b)) b of
        None \<Rightarrow> Inl (SyntaxError ''invalid JSON text'')
      | Some (v, r) \<Rightarrow>
          if skip_ws r = [] then Inr v
          else Inl (SyntaxError ''invalid character after top-level value''))"

text \<open>Field names are matched without regard to case: \<^verbatim>\<open>foldName\<close> maps a name to the
  least member of its class under Unicode simple folding. For the letters of the two field
  names of \<^verbatim>\<open>APIError\<close> the classes are the two ASCII cases, with the long s (bytes C5 BF)
  in the class of \<open>S\<close> and the Kelvin sign (bytes E2 84 AA) in the class of \<open>K\<close>.\<close>

fun foldName :: "string \<Rightarrow> string" where
  "foldName [] = []"
| "foldName (c # cs) =
     (let n = (of_char c :: nat)
      in if 97 \<le> n \<and> n \<le> 122 then char_of (n - 32) # foldName cs
         else if c = CHR 0xC5 \<and> take 1 cs = [CHR 0xBF] then CHR ''S'' # foldName (drop 1 cs)
         else if c = CHR 0xE2 \<and> take 2 cs = [CHR 0x84, CHR 0xAA] then CHR ''K'' # foldName (drop 2 cs)
         else c # foldName cs)"

definition json_kind :: "json \<Rightarrow> string" where
  "json_kind v =
     (case v of
        JNull \<Rightarrow> ''null''
      | JBool b \<Rightarrow> ''bool''
      | JNumber n \<Rightarrow> ''number''
      | JString s \<Rightarrow> ''string''
      | JArray xs \<Rightarrow> ''array''
      | JObject kvs \<Rightarrow> ''object'')"

text \<open>Storing one member of an object into an \<^verbatim>\<open>APIError\<close>. A string is stored, null
  leaves the field as it is, any other value is a type error; the first error is kept and
  decoding goes on. A key that names no field is skipped.\<close>

definition store_string :: "json \<Rightarrow> string \<Rightarrow> string \<Rightarrow> error option \<Rightarrow> string \<times> error option" where
  "store_string v field old saved =
     (case v of
        JString s \<Rightarrow> (s, saved)
      | JNull \<Rightarrow> (old, saved)
      | _ \<Rightarrow> (old, (case saved of
                       None \<Rightarrow> Some (UnmarshalTypeError (json_kind v) field)
                     | Some err \<Rightarrow> Some err)))"

definition store_member :: "string \<times> json \<Rightarrow> APIError \<times> error option \<Rightarrow> APIError \<times> error option" where
  "store_member kv st =
     (case kv of (k, v) \<Rightarrow>
      case st of (a, saved) \<Rightarrow>
        if foldName k = foldName ''Code'' then
          (case store_string v ''APIError.Code'' (Code a) saved of
             (s, saved') \<Rightarrow> (a\<lparr>Code := s\<rparr>, saved'))
        else if foldName k = foldName ''Message'' then
          (case store_string v ''APIError.Message'' (Message a) saved of
             (s, saved') \<Rightarrow> (a\<lparr>Message := s\<rparr>, saved'))
        else (a, saved))"

text \<open>\<^verbatim>\<open>json.Unmarshal(body, apiError)\<close> with \<^verbatim>\<open>apiError\<close> a pointer to a struct that has
  its fields set already: an error, or the struct after decoding.\<close>

definition json_Unmarshal_APIError :: "bytes \<Rightarrow> APIError \<Rightarrow> error + APIError" where
  "json_Unmarshal_APIError body a =
     (case json_parse body of
        Inl err \<Rightarrow> Inl err
      | Inr v \<Rightarrow>
          (case v of
             JObject kvs \<Rightarrow>
               (case fold store_member kvs (a, None) of
                  (a', None) \<Rightarrow> Inr a'
                | (a', Some err) \<Rightarrow> Inl err)
           | JNull \<Rightarrow> Inr a
           | _ \<Rightarrow> Inl (UnmarshalTypeError (json_kind v) ''APIError'')))"

text \<open>The caller's result container is known by what it does with a JSON value: it takes
  it, or it reports an error.\<close>

type_synonym target = "json \<Rightarrow> error option"

definition json_Unmarshal :: "bytes \<Rightarrow> target \<Rightarrow> error option" where
  "json_Unmarshal body t =
     (case json_parse body of
        Inl err \<Rightarrow> Some err
      | Inr v \<Rightarrow> t v)"

subsection \<open>\<^verbatim>\<open>NewRequest\<close>\<close>

text \<open>\<^verbatim>\<open>fmt.Sprintf("%d", n)\<close>.\<close>

fun string_of_nat :: "nat \<Rightarrow> string" where
  "string_of_nat n =
     (if n < 10 then [char_of (48 + n)]
      else string_of_nat (n div 10) @ [char_of (48 + n mod 10)])"

declare string_of_nat.simps [simp del]

definition Sprintf_d :: "int \<Rightarrow> string" where
  "Sprintf_d n = (if n < 0 then CHR ''-'' # string_of_nat (nat (- n)) else string_of_nat (nat n))"

text \<open>\<^verbatim>\<open>http.NewRequest\<close> refuses a method that is not a token and a target that does not
  parse; an empty method means GET. The request carries the background context.\<close>

definition is_token_char :: "char \<Rightarrow> bool" where
  "is_token_char c =
     (let n = (of_char c :: nat)
      in (48 \<le> n \<and> n \<le> 57) \<or> (65 \<le> n \<and> n \<le> 90) \<or> (97 \<le> n \<and> n \<le> 122)
         \<or> c \<in> set ''!#$%&*+-.^_`|~'' \<or> n = 39)"

definition validMethod :: "string \<Rightarrow> bool" where
  "validMethod m = (m \<noteq> [] \<and> list_all is_token_char m)"

definition http_NewRequest :: "env \<Rightarrow> string \<Rightarrow> string \<Rightarrow> bytes \<Rightarrow> error + Request" where
  "http_NewRequest e method target body =
     (let m = (if method = [] then ''GET'' else method)
      in if \<not> validMethod m then Inl (RequestErr ''net/http: invalid method'')
         else if \<not> url_ok e target then Inl (RequestErr ''parse: invalid URL'')
         else Inr \<lparr>Method = m, URL = target, ReqHeader = [], ReqBody = body, Ctx = Background\<rparr>)"

text \<open>The request body is an \<^verbatim>\<open>interface{}\<close>: nil, or a value known by what
  \<^verbatim>\<open>json.Marshal\<close> makes of it. The client is returned too, because line 229 writes into
  the \<^verbatim>\<open>http.Client\<close> it points to.\<close>

type_synonym reqBody = "(error + bytes) option"

definition NewRequest :: "env \<Rightarrow> Client \<Rightarrow> string \<Rightarrow> string \<Rightarrow> reqBody
    \<Rightarrow> (error + Request) \<times> Client" where
  "NewRequest e c method path reqBody =
     (case (case reqBody of
              None \<Rightarrow> Inr None
            | Some (Inl err) \<Rightarrow> Inl err
            | Some (Inr b) \<Rightarrow> Inr (Some b)) of
        Inl err \<Rightarrow> (Inl err, c)
      | Inr body \<Rightarrow>
          (let target = APIEndPoint c @ path
           in case http_NewRequest e method target (case body of None \<Rightarrow> [] | Some b \<Rightarrow> b) of
                Inl err \<Rightarrow> (Inl err, c)
              | Inr req \<Rightarrow>
                  (let h0 = (if body \<noteq> None
                             then Header_Set (ReqHeader req) ''Content-Type'' ''application/json;charset=utf-8''
                             else ReqHeader req);
                       h1 = Header_Set h0 ''Authorization'' (''sso-key '' @ APIKey c @ '':'' @ APISecret c);
                       h2 = Header_Set h1 ''Accept'' ''application/json'';
                       h3 = Header_Set h2 ''User-Agent'' (UserAgent e);
                       c' = c\<lparr>Client := (Client c)\<lparr>http_Timeout := Timeout c\<rparr>\<rparr>
                   in (Inr (req\<lparr>ReqHeader := h3\<rparr>), c'))))"

subsection \<open>\<^verbatim>\<open>UnmarshalResponse\<close> and the call helpers\<close>

text \<open>The deferred \<^verbatim>\<open>response.Body.Close()\<close> runs on every return, so every branch ends
  with the close event. \<open>None\<close> is the nil error.\<close>

definition UnmarshalResponse :: "Client \<Rightarrow> Response \<Rightarrow> target option \<Rightarrow> world
    \<Rightarrow> (error option) run" where
  "UnmarshalResponse c response resType w =
     (let io = [ReadAll (Conn response), Close (Conn response)]
      in case Body response of
           Inl err \<Rightarrow> (Some err, w, io)
         | Inr body \<Rightarrow>
             if StatusCode response < 200 \<or> StatusCode response \<ge> 300 then
               (let apiError = \<lparr>Code = ''HTTPStatus: '' @ Sprintf_d (StatusCode response),
                                Message = []\<rparr>
                in case json_Unmarshal_APIError body apiError of
                     Inl err \<Rightarrow> (Some err, w, io)
                   | Inr a \<Rightarrow> (Some (APIErr a), w, io))
             else if length body = 0 \<or> resType = None then (None, w, io)
             else (json_Unmarshal body (the resType), w, io))"

definition CallAPIWithContext :: "env \<Rightarrow> Client \<Rightarrow> Context \<Rightarrow> string \<Rightarrow> string \<Rightarrow> reqBody
    \<Rightarrow> target option \<Rightarrow> world \<Rightarrow> ((error option) outcome \<times> Client) run" where
  "CallAPIWithContext e c ctx method path reqBody resType w =
     (case NewRequest e c method path reqBody of
        (Inl err, c1) \<Rightarrow> ((Return (Some err), c1), w, [])
      | (Inr req0, c1) \<Rightarrow>
          (let req = req0\<lparr>Ctx := ctx\<rparr>
           in case Do e c1 req w of
                (Panic m, w1, ev1) \<Rightarrow> ((Panic m, c1), w1, ev1)
              | (Return (Inl err), w1, ev1) \<Rightarrow> ((Return (Some err), c1), w1, ev1)
              | (Return (Inr response), w1, ev1) \<Rightarrow>
                  (case UnmarshalResponse c1 response resType w1 of
                     (r, w2, ev2) \<Rightarrow> ((Return r, c1), w2, ev1 @ ev2))))"

definition CallAPI :: "env \<Rightarrow> Client \<Rightarrow> string \<Rightarrow> string \<Rightarrow> reqBody \<Rightarrow> target option \<Rightarrow> world
    \<Rightarrow> ((error option) outcome \<times> Client) run" where
  "CallAPI e c method path reqBody resType w =
     CallAPIWithContext e c Background method path reqBody resType w"

definition Get :: "env \<Rightarrow> Client \<Rightarrow> string \<Rightarrow> target option \<Rightarrow> world
    \<Rightarrow> ((error option) outcome \<times> Client) run" where
  "Get e c url resType w = CallAPI e c ''GET'' url None resType w"

definition Patch :: "env \<Rightarrow> Client \<Rightarrow> string \<Rightarrow> reqBody \<Rightarrow> target option \<Rightarrow> world
    \<Rightarrow> ((error option) outcome \<times> Client) run" where
  "Patch e c url reqBody resType w = CallAPI e c ''PATCH'' url reqBody resType w"

definition Post :: "env \<Rightarrow> Client \<Rightarrow> string \<Rightarrow> reqBody \<Rightarrow> target option \<Rightarrow> world
    \<Rightarrow> ((error option) outcome \<times> Client) run" where
  "Post e c url reqBody resType w = CallAPI e c ''POST'' url reqBody resType w"

definition Put :: "env \<Rightarrow> Client \<Rightarrow> string \<Rightarrow> reqBody \<Rightarrow> target option \<Rightarrow> world
    \<Rightarrow> ((error option) outcome \<times> Client) run" where
  "Put e c url reqBody resType w = CallAPI e c ''PUT'' url reqBody resType w"

definition Delete :: "env \<Rightarrow> Client \<Rightarrow> string \<Rightarrow> target option \<Rightarrow> world
    \<Rightarrow> ((error option) outcome \<times> Client) run" where
  "Delete e c url resType w = CallAPI e c ''DELETE'' url None resType w"

text \<open>\<^verbatim>\<open>validate\<close> passes a nil interface as the result container.\<close>

definition validate :: "env \<Rightarrow> Client \<Rightarrow> world \<Rightarrow> ((error option) outcome \<times> Client) run" where
  "validate e c w = Get e c (domainsURI e) None w"

subsection \<open>\<^verbatim>\<open>NewClient\<close>\<close>

definition NewClient :: "env \<Rightarrow> bool \<Rightarrow> string \<Rightarrow> string \<Rightarrow> world
    \<Rightarrow> ((error + Client) outcome) run" where
  "NewClient e useOTE apiKey apiSecret w =
     (let endpoint = (if useOTE then ''https://api.ote-godaddy.com'' else ''https://api.godaddy.com'');
          client = \<lparr>APIKey = apiKey, APISecret = apiSecret, APIEndPoint = endpoint,
                    Client = \<lparr>http_Timeout = 0\<rparr>,
                    Ratelimiter = \<lparr>limit_every = Second, burst = 60\<rparr>,
                    Logger = None, Timeout = DefaultTimeout\<rparr>
      in case validate e client w of
           ((Panic m, c1), w1, ev) \<Rightarrow> (Panic m, w1, ev)
         | ((Return None, c1), w1, ev) \<Rightarrow> (Return (Inr c1), w1, ev)
         | ((Return (Some err), c1), w1, ev) \<Rightarrow>
             (case errors_As err of
                Some apiErr \<Rightarrow>
                  if Code apiErr \<noteq> ErrCodeQuotaExceeded then (Return (Inl err), w1, ev)
                  else (Return (Inr c1), w1, ev)
              | None \<Rightarrow> (Return (Inr c1), w1, ev)))"

subsection \<open>Inputs for the examples\<close>

definition mk_resp :: "int \<Rightarrow> http_Header \<Rightarrow> bytes \<Rightarrow> Response" where
  "mk_resp s h b = \<lparr>StatusCode = s, RespHeader = h, Body = Inr b, Conn = 0\<rparr>"

text \<open>A 429 response with the given \<^verbatim>\<open>Retry-After\<close> value and a quota error as its body.\<close>

definition throttled :: "string \<Rightarrow> Response" where
  "throttled ra =
     mk_resp 429 [(''Retry-After'', [ra])] ''{\"code\":\"TOO_MANY_REQUESTS\",\"message\":\"slow down\"}''"

text \<open>An environment that plays a script: the \<open>k\<close>-th send gets the \<open>k\<close>-th entry, the
  \<open>k\<close>-th wait on the limiter the \<open>k\<close>-th limiter entry (nil once the script is over), the
  \<open>k\<close>-th draw the \<open>k\<close>-th number.\<close>

definition script_env :: "(error + Response) list \<Rightarrow> error option list \<Rightarrow> int list \<Rightarrow> env" where
  "script_env rs ls ds =
     \<lparr>transport = (\<lambda>k req. if k < length rs then rs ! k else Inl (TransportErr ''EOF'')),
      limiter = (\<lambda>k ctx. if k < length ls then ls ! k else None),
      rand63 = (\<lambda>k. if k < length ds then ds ! k else 0),
      url_ok = (\<lambda>u. True),
      domainsURI = ''/v1/domains?statuses=ACTIVE,PENDING_DNS_ACTIVE'',
      UserAgent = ''ExternalDNS''\<rparr>"

definition req0 :: Request where
  "req0 = \<lparr>Method = ''GET'', URL = ''https://api.godaddy.com/v1/domains'', ReqHeader = [],
           ReqBody = [], Ctx = Background\<rparr>"

definition w0 :: world where
  "w0 = \<lparr>sent = 0, waited = 0, drawn = 0\<rparr>"

definition client0 :: Client where
  "client0 = \<lparr>APIKey = ''key'', APISecret = ''secret'', APIEndPoint = ''https://api.godaddy.com'',
              Client = \<lparr>http_Timeout = 0\<rparr>, Ratelimiter = \<lparr>limit_every = Second, burst = 60\<rparr>,
              Logger = None, Timeout = DefaultTimeout\<rparr>"

text \<open>A client with a logger, and an environment that answers 429 twice before 200.\<close>

definition logged_client :: Client where
  "logged_client = client0\<lparr>Logger := Some (Hooks ''debug'')\<rparr>"

definition retried_twice :: env where
  "retried_twice =
     script_env [Inr (throttled ''1''), Inr (throttled ''1''), Inr (mk_resp 200 [] [])] [] [0, 0]"


subsection \<open>Reading the events\<close>

definition sleeps :: "event list \<Rightarrow> int list" where
  "sleeps evs = concat (map (\<lambda>ev. case ev of Sleep d \<Rightarrow> [d] | _ \<Rightarrow> []) evs)"

definition opened :: "event list \<Rightarrow> nat list" where
  "opened evs = concat (map (\<lambda>ev. case ev of RoundTrip k r \<Rightarrow> [k] | _ \<Rightarrow> []) evs)"

definition closed :: "event list \<Rightarrow> nat list" where
  "closed evs = concat (map (\<lambda>ev. case ev of Close k \<Rightarrow> [k] | _ \<Rightarrow> []) evs)"

definition is_log :: "event \<Rightarrow> bool" where
  "is_log ev = (case ev of LogRequest r \<Rightarrow> True | LogResponse r \<Rightarrow> True | _ \<Rightarrow> False)"

subsection \<open>What an error body supplies\<close>




section \<open>Properties\<close>

subsection \<open>One turn of the retry loop\<close>

lemmas weak_congs = sum.case_cong_weak prod.case_cong_weak outcome.case_cong_weak
  option.case_cong_weak list.case_cong_weak

lemmas eval_defs = Do_def script_env_def throttled_def mk_resp_def client0_def req0_def w0_def
  Ratelimiter_Wait_def Client_Do_def retry_loop.simps Header_Get_def ParseInt_def ParseUint_def
  digit_val_def Int63n_def sleepTime_def wrap64_def Second_def Let_def

lemma retry_loop_done:
  "\<not> (i < 3 \<and> StatusCode resp = 429) \<Longrightarrow> retry_loop e req i resp w = (Return (Inr resp), w, [])"
  by (subst retry_loop.simps) auto

lemma retry_loop_break:
  assumes "i < 3" "StatusCode resp = 429"
    and "ParseInt (Header_Get (RespHeader resp) ''Retry-After'') = Inl err"
  shows "retry_loop e req i resp w =
    (Return (Inr resp), w,
     [LogError ''Rate-limited response did not contain a valid Retry-After header, quota likely exceeded''])"
  using assms by (subst retry_loop.simps) simp

lemma retry_loop_panic:
  assumes "i < 3" "StatusCode resp = 429"
    and "ParseInt (Header_Get (RespHeader resp) ''Retry-After'') = Inr n" "n \<le> 0"
  shows "retry_loop e req i resp w = (Panic ''invalid argument to Int63n'', w, [])"
  using assms by (subst retry_loop.simps) (simp add: Int63n_def)

lemma retry_loop_step:
  assumes "i < 3" "StatusCode resp = 429"
    and "ParseInt (Header_Get (RespHeader resp) ''Retry-After'') = Inr n" "0 < n"
  shows "retry_loop e req i resp w =
    (let j = rand63 e (drawn w) mod n;
         w' = w\<lparr>drawn := drawn w + 1, waited := waited w + 1, sent := sent w + 1\<rparr>;
         evs = [Sleep (sleepTime n j), Wait (Ctx req) (limiter e (waited w) (Ctx req)),
                RoundTrip (sent w) req]
     in case transport e (sent w) req of
          Inl err \<Rightarrow>
            (Return (Inl (Wrapf ''doing request after waiting for retry after: '' err)), w', evs)
        | Inr r \<Rightarrow>
            (case retry_loop e req (i + 1) (r\<lparr>Conn := sent w\<rparr>) w' of
               (r', w5, ev5) \<Rightarrow> (r', w5, evs @ ev5)))"
  using assms
  by (subst retry_loop.simps)
     (simp add: Int63n_def Ratelimiter_Wait_def Client_Do_def Let_def split: sum.splits prod.splits)

lemma Do_unfold:
  "Do e c req w =
    (let ev0 = (case Logger c of None \<Rightarrow> [] | Some l \<Rightarrow> [LogRequest req])
             @ [Wait (Ctx req) (limiter e (waited w) (Ctx req)), RoundTrip (sent w) req];
         w2 = w\<lparr>waited := waited w + 1, sent := sent w + 1\<rparr>
     in case transport e (sent w) req of
          Inl err \<Rightarrow> (Return (Inl err), w2, ev0)
        | Inr r \<Rightarrow>
            (case retry_loop e req 1 (r\<lparr>Conn := sent w\<rparr>) w2 of
               (Return (Inr resp'), w3, ev3) \<Rightarrow>
                 (Return (Inr resp'), w3,
                  ev0 @ ev3 @ (case Logger c of None \<Rightarrow> [] | Some l \<Rightarrow> [LogResponse resp']))
             | (r', w3, ev3) \<Rightarrow> (r', w3, ev0 @ ev3)))"
  by (simp add: Do_def Ratelimiter_Wait_def Client_Do_def Let_def
           split: sum.splits prod.splits outcome.splits)

subsection \<open>A \<^verbatim>\<open>Retry-After\<close> that is not positive\<close>



subsection \<open>The sleep before a retry\<close>

lemma wrap64_id: "- (2 ^ 63) \<le> x \<Longrightarrow> x < 2 ^ 63 \<Longrightarrow> wrap64 x = x"
  by (simp add: wrap64_def)

lemma sleepTime_exact:
  assumes "0 < n" "0 \<le> j" "n + j div 2 \<le> 9223372036"
  shows "sleepTime n j = (n + j div 2) * Second"
proof -
  have "0 \<le> j div 2" using assms(2) by simp
  then have a: "0 < n + j div 2" using assms(1) by linarith
  have "wrap64 (n + j div 2) = n + j div 2"
    using a assms(3) by (intro wrap64_id) simp_all
  moreover have "wrap64 ((n + j div 2) * Second) = (n + j div 2) * Second"
    using a assms(3) by (intro wrap64_id) (simp_all add: Second_def)
  ultimately show ?thesis by (simp add: sleepTime_def)
qed

lemma retry_loop_first_event:
  assumes "i < 3" "StatusCode resp = 429"
    and "ParseInt (Header_Get (RespHeader resp) ''Retry-After'') = Inr n" "0 < n"
  shows "take 1 (snd (snd (retry_loop e req i resp w)))
           = [Sleep (sleepTime n (rand63 e (drawn w) mod n))]"
  by (simp add: retry_loop_step [OF assms] Let_def split: sum.splits prod.splits)

text \<open>Claim C3, as amended. For a 429 response that the retry loop takes up, whose
  \<^verbatim>\<open>Retry-After\<close> header parses to \<open>n > 0\<close>, the jitter \<open>j\<close> is drawn from \<open>[0, n)\<close> and
  the first thing the loop does is to sleep; the sleep is \<open>n + j div 2\<close> seconds whenever
  that many seconds fit a \<^verbatim>\<open>time.Duration\<close>, which counts nanoseconds in an \<^verbatim>\<open>int64\<close>:
  \<open>n + j div 2 \<le> 9223372036\<close>. How the draw is distributed is left to the library.\<close>

theorem retry_sleep_is_Retry_After_plus_half_jitter:
  assumes "i < 3" "StatusCode resp = 429"
    and "ParseInt (Header_Get (RespHeader resp) ''Retry-After'') = Inr n" "0 < n"
    and "j = rand63 e (drawn w) mod n"
    and "n + j div 2 \<le> 9223372036"
  shows "0 \<le> j \<and> j < n
       \<and> take 1 (snd (snd (retry_loop e req i resp w))) = [Sleep ((n + j div 2) * Second)]"
proof -
  have j: "0 \<le> j" "j < n" using assms(4,5) by simp_all
  have "sleepTime n j = (n + j div 2) * Second"
    using assms(4) j(1) assms(6) by (rule sleepTime_exact)
  then show ?thesis
    using j retry_loop_first_event [OF assms(1-4), of e req w] assms(5) by simp
qed

theorem retry_sleep_is_Retry_After_plus_half_jitter_witness:
  "take 1 (snd (snd (retry_loop (script_env [Inr (throttled ''2''), Inr (mk_resp 200 [] [])] [] [7])
                       req0 1 (throttled ''2'') (w0\<lparr>sent := 1\<rparr>))))
     = [Sleep (2 * Second)]
   \<and> 2 * Second \<le> 2 * Second \<and> 2 * Second < 3 * Second"
proof -
  let ?e = "script_env [Inr (throttled ''2''), Inr (mk_resp 200 [] [])] [] [7]"
  have a: "StatusCode (throttled ''2'') = 429"
    by (simp add: throttled_def mk_resp_def)
  have b: "ParseInt (Header_Get (RespHeader (throttled ''2'')) ''Retry-After'') = Inr 2"
    by (simp add: throttled_def mk_resp_def Header_Get_def ParseInt_def ParseUint_def digit_val_def)
  have c: "(1::int) = rand63 ?e (drawn (w0\<lparr>sent := 1\<rparr>)) mod 2"
    by (simp add: script_env_def w0_def)
  have d: "(2::int) + 1 div 2 \<le> 9223372036" by simp
  have i: "(1::nat) < 3" by simp
  have p: "(0::int) < 2" by simp
  show ?thesis
    using retry_sleep_is_Retry_After_plus_half_jitter [OF i a b p c d, of req0]
    by (simp add: Second_def)
qed

text \<open>Claim C3 as stated fails where the seconds do not fit: with
  \<^verbatim>\<open>Retry-After: 9223372037\<close> and a jitter of 0 the product with \<^verbatim>\<open>time.Second\<close> wraps
  around, and the sleep that is computed is negative.\<close>

theorem retry_sleep_overflow_counterexample:
  "ParseInt (Header_Get (RespHeader (throttled ''9223372037'')) ''Retry-After'') = Inr 9223372037
   \<and> sleeps (snd (snd (Do (script_env [Inr (throttled ''9223372037''), Inr (mk_resp 200 [] [])] [] [0])
                         client0 req0 w0)))
       = [- 9223372036709551616]
   \<and> - 9223372036709551616 \<noteq> (9223372037 + (0 mod 9223372037) div 2) * Second"
  by (simp add: sleeps_def eval_defs cong: weak_congs)

subsection \<open>The retry budget\<close>

text \<open>When the first two responses are 429 with a positive \<^verbatim>\<open>Retry-After\<close>, \<^verbatim>\<open>Do\<close> sends
  three times and returns the third response, whatever its status.\<close>

lemma retry_loop_last_turn:
  assumes "StatusCode resp = 429"
    and "ParseInt (Header_Get (RespHeader resp) ''Retry-After'') = Inr n" "0 < n"
    and "transport e (sent w) req = Inr r"
  shows "retry_loop e req (Suc (Suc 0)) resp w =
    (Return (Inr (r\<lparr>Conn := sent w\<rparr>)),
     w\<lparr>drawn := drawn w + 1, waited := waited w + 1, sent := sent w + 1\<rparr>,
     [Sleep (sleepTime n (rand63 e (drawn w) mod n)),
      Wait (Ctx req) (limiter e (waited w) (Ctx req)), RoundTrip (sent w) req])"
proof -
  have i: "Suc (Suc 0) < 3" by simp
  show ?thesis
    by (subst retry_loop_step [OF i assms(1-3)]) (simp add: retry_loop_done Let_def assms(4))
qed

lemma retry_loop_two_turns:
  assumes "StatusCode resp = 429"
    and "ParseInt (Header_Get (RespHeader resp) ''Retry-After'') = Inr n0" "0 < n0"
    and "transport e (sent w) req = Inr r1" "StatusCode r1 = 429"
    and "ParseInt (Header_Get (RespHeader r1) ''Retry-After'') = Inr n1" "0 < n1"
    and "transport e (sent w + 1) req = Inr r2"
  shows "retry_loop e req (Suc 0) resp w =
    (Return (Inr (r2\<lparr>Conn := sent w + 1\<rparr>)),
     w\<lparr>drawn := drawn w + 2, waited := waited w + 2, sent := sent w + 2\<rparr>,
     [Sleep (sleepTime n0 (rand63 e (drawn w) mod n0)),
      Wait (Ctx req) (limiter e (waited w) (Ctx req)), RoundTrip (sent w) req,
      Sleep (sleepTime n1 (rand63 e (drawn w + 1) mod n1)),
      Wait (Ctx req) (limiter e (waited w + 1) (Ctx req)), RoundTrip (sent w + 1) req])"
proof -
  have i: "Suc 0 < 3" by simp
  let ?w = "w\<lparr>drawn := drawn w + 1, waited := waited w + 1, sent := sent w + 1\<rparr>"
  have a: "StatusCode (r1\<lparr>Conn := sent w\<rparr>) = 429" using assms(5) by simp
  have b: "ParseInt (Header_Get (RespHeader (r1\<lparr>Conn := sent w\<rparr>)) ''Retry-After'') = Inr n1"
    using assms(6) by simp
  have c: "transport e (sent ?w) req = Inr r2" using assms(8) by simp
  have "retry_loop e req (Suc (Suc 0)) (r1\<lparr>Conn := sent w\<rparr>) ?w =
    (Return (Inr (r2\<lparr>Conn := sent ?w\<rparr>)),
     ?w\<lparr>drawn := drawn ?w + 1, waited := waited ?w + 1, sent := sent ?w + 1\<rparr>,
     [Sleep (sleepTime n1 (rand63 e (drawn ?w) mod n1)),
      Wait (Ctx req) (limiter e (waited ?w) (Ctx req)), RoundTrip (sent ?w) req])"
    using a b assms(7) c by (rule retry_loop_last_turn)
  then show ?thesis
    by (subst retry_loop_step [OF i assms(1-3)]) (simp add: Let_def assms(4))
qed

lemma Do_three_sends:
  assumes "transport e (sent w) req = Inr r0" "StatusCode r0 = 429"
    and "ParseInt (Header_Get (RespHeader r0) ''Retry-After'') = Inr n0" "0 < n0"
    and "transport e (sent w + 1) req = Inr r1" "StatusCode r1 = 429"
    and "ParseInt (Header_Get (RespHeader r1) ''Retry-After'') = Inr n1" "0 < n1"
    and "transport e (sent w + 2) req = Inr r2"
  shows "fst (Do e c req w) = Return (Inr (r2\<lparr>Conn := sent w + 2\<rparr>))
       \<and> opened (snd (snd (Do e c req w))) = [sent w, sent w + 1, sent w + 2]
       \<and> sent (fst (snd (Do e c req w))) = sent w + 3"
proof -
  let ?w = "w\<lparr>waited := waited w + 1, sent := sent w + 1\<rparr>"
  have a: "StatusCode (r0\<lparr>Conn := sent w\<rparr>) = 429" using assms(2) by simp
  have b: "ParseInt (Header_Get (RespHeader (r0\<lparr>Conn := sent w\<rparr>)) ''Retry-After'') = Inr n0"
    using assms(3) by simp
  have c: "transport e (sent ?w) req = Inr r1" using assms(5) by simp
  have d: "transport e (sent ?w + 1) req = Inr r2" using assms(9) by (simp add: numeral_2_eq_2)
  note l = retry_loop_two_turns [OF a b assms(4) c assms(6,7,8) d]
  show ?thesis
    using l unfolding Do_unfold by (simp add: Let_def assms(1) opened_def split: option.splits)
qed

text \<open>Claim C2 at the input where the code departs from it: every send is answered by 429
  with \<^verbatim>\<open>Retry-After: 0\<close>, which parses. \<^verbatim>\<open>Do\<close> panics after the first send: there is no
  second or third send and no response is returned.\<close>

theorem Do_throttled_with_Retry_After_zero:
  "Do (script_env [Inr (throttled ''0''), Inr (throttled ''0''), Inr (throttled ''0'')] [] [])
      client0 req0 w0
   = (Panic ''invalid argument to Int63n'', \<lparr>sent = 1, waited = 1, drawn = 0\<rparr>,
      [Wait Background None, RoundTrip 0 req0])"
  by (simp add: eval_defs cong: weak_congs)

subsection \<open>Decoding an error response\<close>















subsection \<open>A 429 response without a usable \<^verbatim>\<open>Retry-After\<close>\<close>







subsection \<open>What the retry loop leaves alone\<close>

text \<open>The loop calls no logging hook and closes no body.\<close>

lemma quiet_append:
  "filter is_log (xs @ ys) = filter is_log xs @ filter is_log ys"
  "closed (xs @ ys) = closed xs @ closed ys"
  by (simp_all add: closed_def)

lemma retry_loop_quiet_aux:
  "3 - i = k \<Longrightarrow>
     filter is_log (snd (snd (retry_loop e req i resp w))) = []
     \<and> closed (snd (snd (retry_loop e req i resp w))) = []"
proof (induction k arbitrary: i resp w)
  case 0
  then have "\<not> (i < 3 \<and> StatusCode resp = 429)" by simp
  then show ?case by (simp add: retry_loop_done closed_def)
next
  case (Suc k)
  then have i: "i < 3" and k: "3 - (i + 1) = k" by simp_all
  show ?case
  proof (cases "StatusCode resp = 429")
    case False
    then show ?thesis by (simp add: retry_loop_done closed_def)
  next
    case s: True
    show ?thesis
    proof (cases "ParseInt (Header_Get (RespHeader resp) ''Retry-After'')")
      case (Inl err)
      show ?thesis
        by (simp add: retry_loop_break [OF i s Inl] closed_def is_log_def)
    next
      case (Inr n)
      show ?thesis
      proof (cases "n \<le> 0")
        case True
        show ?thesis
          by (simp add: retry_loop_panic [OF i s Inr True] closed_def)
      next
        case False
        then have n: "0 < n" by simp
        let ?w = "w\<lparr>drawn := drawn w + 1, waited := waited w + 1, sent := sent w + 1\<rparr>"
        let ?evs = "[Sleep (sleepTime n (rand63 e (drawn w) mod n)),
                     Wait (Ctx req) (limiter e (waited w) (Ctx req)), RoundTrip (sent w) req]"
        have q: "filter is_log ?evs = []" "closed ?evs = []"
          by (simp_all add: is_log_def closed_def)
        show ?thesis
        proof (cases "transport e (sent w) req")
          case (Inl err)
          then show ?thesis
            using q by (simp add: retry_loop_step [OF i s Inr n] Let_def)
        next
          case r: (Inr r)
          obtain r' w' ev5 where l:
            "retry_loop e req (i + 1) (r\<lparr>Conn := sent w\<rparr>) ?w = (r', w', ev5)"
            by (cases "retry_loop e req (i + 1) (r\<lparr>Conn := sent w\<rparr>) ?w") auto
          have "filter is_log ev5 = [] \<and> closed ev5 = []"
            using Suc.IH [OF k, of "r\<lparr>Conn := sent w\<rparr>" ?w] l by simp
          then have "filter is_log (?evs @ ev5) = [] \<and> closed (?evs @ ev5) = []"
            using q by (simp only: quiet_append) simp
          then show ?thesis
            using l r by (simp add: retry_loop_step [OF i s Inr n] Let_def)
        qed
      qed
    qed
  qed
qed

lemma retry_loop_quiet:
  "filter is_log (snd (snd (retry_loop e req i resp w))) = []"
  "closed (snd (snd (retry_loop e req i resp w))) = []"
  using retry_loop_quiet_aux [of i "3 - i" e req resp w] by simp_all

lemma Do_closes_nothing: "closed (snd (snd (Do e c req w))) = []"
proof (cases "transport e (sent w) req")
  case (Inl err)
  then show ?thesis
    unfolding Do_unfold by (simp add: Let_def closed_def split: option.splits)
next
  case (Inr r)
  obtain r' w' evs where l: "retry_loop e req 1 (r\<lparr>Conn := sent w\<rparr>)
      (w\<lparr>waited := waited w + 1, sent := sent w + 1\<rparr>) = (r', w', evs)"
    by (cases "retry_loop e req 1 (r\<lparr>Conn := sent w\<rparr>)
      (w\<lparr>waited := waited w + 1, sent := sent w + 1\<rparr>)") auto
  have "closed evs = []"
    using retry_loop_quiet(2) [of e req 1 "r\<lparr>Conn := sent w\<rparr>"
        "w\<lparr>waited := waited w + 1, sent := sent w + 1\<rparr>"] l by simp
  then show ?thesis
    using l Inr unfolding Do_unfold
    by (auto simp add: Let_def closed_def split: option.splits outcome.splits sum.splits)
qed

subsection \<open>Logging\<close>

text \<open>Claim C7, as amended. With a logger configured, one call of \<^verbatim>\<open>Do\<close> invokes the
  request hook once, before the first wait on the limiter and the first send, and the
  response hook once, after the retry loop, with the response that \<^verbatim>\<open>Do\<close> returns; when
  \<^verbatim>\<open>Do\<close> returns an error or panics the response hook is not invoked. Nothing is logged
  in between, so retried attempts are not logged. The result of \<^verbatim>\<open>Do\<close> and the state it
  leaves are those of the same call without a logger.\<close>

theorem Do_logs_once:
  assumes "Logger c = Some l"
  shows "fst (Do e c req w) = fst (Do e (c\<lparr>Logger := None\<rparr>) req w)
    \<and> fst (snd (Do e c req w)) = fst (snd (Do e (c\<lparr>Logger := None\<rparr>) req w))
    \<and> snd (snd (Do e c req w)) =
        LogRequest req # snd (snd (Do e (c\<lparr>Logger := None\<rparr>) req w))
          @ (case fst (Do e c req w) of Return (Inr resp) \<Rightarrow> [LogResponse resp] | _ \<Rightarrow> [])
    \<and> filter is_log (snd (snd (Do e (c\<lparr>Logger := None\<rparr>) req w))) = []"
proof (cases "transport e (sent w) req")
  case (Inl err)
  then show ?thesis
    unfolding Do_unfold by (simp add: Let_def assms is_log_def)
next
  case (Inr r)
  obtain r' w' evs where l: "retry_loop e req 1 (r\<lparr>Conn := sent w\<rparr>)
      (w\<lparr>waited := waited w + 1, sent := sent w + 1\<rparr>) = (r', w', evs)"
    by (cases "retry_loop e req 1 (r\<lparr>Conn := sent w\<rparr>)
      (w\<lparr>waited := waited w + 1, sent := sent w + 1\<rparr>)") auto
  have "filter is_log evs = []"
    using retry_loop_quiet(1) [of e req 1 "r\<lparr>Conn := sent w\<rparr>"
        "w\<lparr>waited := waited w + 1, sent := sent w + 1\<rparr>"] l by simp
  then show ?thesis
    using l Inr unfolding Do_unfold
    by (auto simp add: Let_def assms is_log_def split: outcome.splits sum.splits)
qed

lemma Do_retried_twice:
  "Do retried_twice client0 req0 w0 =
     (Return (Inr ((mk_resp 200 [] [])\<lparr>Conn := 2\<rparr>)), \<lparr>sent = 3, waited = 3, drawn = 2\<rparr>,
      [Wait Background None, RoundTrip 0 req0,
       Sleep 1000000000, Wait Background None, RoundTrip 1 req0,
       Sleep 1000000000, Wait Background None, RoundTrip 2 req0])"
  by (simp add: retried_twice_def eval_defs cong: weak_congs)

theorem Do_logs_once_witness:
  "snd (snd (Do retried_twice logged_client req0 w0)) =
     [LogRequest req0, Wait Background None, RoundTrip 0 req0,
      Sleep 1000000000, Wait Background None, RoundTrip 1 req0,
      Sleep 1000000000, Wait Background None, RoundTrip 2 req0,
      LogResponse ((mk_resp 200 [] [])\<lparr>Conn := 2\<rparr>)]"
proof -
  have a: "Logger logged_client = Some (Hooks ''debug'')"
    by (simp add: logged_client_def client0_def)
  have b: "logged_client\<lparr>Logger := None\<rparr> = client0"
    by (simp add: logged_client_def client0_def)
  show ?thesis
    using Do_logs_once [OF a, of retried_twice req0 w0]
    by (simp add: b Do_retried_twice)
qed

text \<open>Claim C7 as stated fails for a request that is retried twice: three sends, and
  one invocation of each hook, not three.\<close>

theorem Do_retries_unlogged_counterexample:
  "opened (snd (snd (Do retried_twice logged_client req0 w0))) = [0, 1, 2]
   \<and> filter is_log (snd (snd (Do retried_twice logged_client req0 w0)))
       = [LogRequest req0, LogResponse ((mk_resp 200 [] [])\<lparr>Conn := 2\<rparr>)]"
  by (simp add: retried_twice_def logged_client_def opened_def is_log_def eval_defs cong: weak_congs)

subsection \<open>A failed wait on the rate limiter\<close>

text \<open>What the limiter answers has no part in what \<^verbatim>\<open>Do\<close> returns or sends: its
  answers are dropped.\<close>

lemma opened_append: "opened (xs @ ys) = opened xs @ opened ys"
  by (simp add: opened_def)

lemma retry_loop_ignores_limiter_aux:
  "3 - i = k \<Longrightarrow>
     fst (retry_loop (e\<lparr>limiter := l\<rparr>) req i resp w) = fst (retry_loop e req i resp w)
     \<and> fst (snd (retry_loop (e\<lparr>limiter := l\<rparr>) req i resp w)) = fst (snd (retry_loop e req i resp w))
     \<and> opened (snd (snd (retry_loop (e\<lparr>limiter := l\<rparr>) req i resp w)))
         = opened (snd (snd (retry_loop e req i resp w)))"
proof (induction k arbitrary: i resp w)
  case 0
  then have "\<not> (i < 3 \<and> StatusCode resp = 429)" by simp
  then show ?case by (simp add: retry_loop_done)
next
  case (Suc k)
  then have i: "i < 3" and k: "3 - (i + 1) = k" by simp_all
  show ?case
  proof (cases "StatusCode resp = 429")
    case False
    then show ?thesis by (simp add: retry_loop_done)
  next
    case s: True
    show ?thesis
    proof (cases "ParseInt (Header_Get (RespHeader resp) ''Retry-After'')")
      case (Inl err)
      show ?thesis by (simp add: retry_loop_break [OF i s Inl])
    next
      case (Inr n)
      show ?thesis
      proof (cases "n \<le> 0")
        case True
        show ?thesis by (simp add: retry_loop_panic [OF i s Inr True])
      next
        case False
        then have n: "0 < n" by simp
        let ?w = "w\<lparr>drawn := drawn w + 1, waited := waited w + 1, sent := sent w + 1\<rparr>"
        show ?thesis
        proof (cases "transport e (sent w) req")
          case (Inl err)
          then show ?thesis
            by (simp add: retry_loop_step [OF i s Inr n] Let_def opened_def)
        next
          case r: (Inr r)
          obtain r1 w1 ev1 where l1:
            "retry_loop e req (i + 1) (r\<lparr>Conn := sent w\<rparr>) ?w = (r1, w1, ev1)"
            by (cases "retry_loop e req (i + 1) (r\<lparr>Conn := sent w\<rparr>) ?w") auto
          obtain r2 w2 ev2 where l2:
            "retry_loop (e\<lparr>limiter := l\<rparr>) req (i + 1) (r\<lparr>Conn := sent w\<rparr>) ?w = (r2, w2, ev2)"
            by (cases "retry_loop (e\<lparr>limiter := l\<rparr>) req (i + 1) (r\<lparr>Conn := sent w\<rparr>) ?w") auto
          have "r2 = r1 \<and> w2 = w1 \<and> opened ev2 = opened ev1"
            using Suc.IH [OF k, of "r\<lparr>Conn := sent w\<rparr>" ?w] l1 l2 by simp
          then show ?thesis
            using l1 l2 r
            by (simp add: retry_loop_step [OF i s Inr n] Let_def opened_append)
               (simp add: opened_def)
        qed
      qed
    qed
  qed
qed

lemma Do_ignores_limiter:
  "fst (Do (e\<lparr>limiter := l\<rparr>) c req w) = fst (Do e c req w)
   \<and> opened (snd (snd (Do (e\<lparr>limiter := l\<rparr>) c req w))) = opened (snd (snd (Do e c req w)))"
proof (cases "transport e (sent w) req")
  case (Inl err)
  then show ?thesis
    unfolding Do_unfold by (simp add: Let_def opened_def split: option.splits)
next
  case (Inr r)
  let ?w = "w\<lparr>waited := waited w + 1, sent := sent w + 1\<rparr>"
  obtain r1 w1 ev1 where l1: "retry_loop e req 1 (r\<lparr>Conn := sent w\<rparr>) ?w = (r1, w1, ev1)"
    by (cases "retry_loop e req 1 (r\<lparr>Conn := sent w\<rparr>) ?w") auto
  obtain r2 w2 ev2 where l2:
    "retry_loop (e\<lparr>limiter := l\<rparr>) req 1 (r\<lparr>Conn := sent w\<rparr>) ?w = (r2, w2, ev2)"
    by (cases "retry_loop (e\<lparr>limiter := l\<rparr>) req 1 (r\<lparr>Conn := sent w\<rparr>) ?w") auto
  have "r2 = r1 \<and> w2 = w1 \<and> opened ev2 = opened ev1"
    using retry_loop_ignores_limiter_aux [where i = 1 and k = "3 - 1" and e = e and l = l
        and req = req and resp = "r\<lparr>Conn := sent w\<rparr>" and w = ?w] l1 l2
    by simp
  then show ?thesis
    using l1 l2 Inr unfolding Do_unfold
    by (auto simp add: Let_def opened_def split: option.splits outcome.splits sum.splits)
qed

text \<open>Claim C6 at an input where the code departs from it. The wait on the limiter fails
  (the limiter answers at once that the deadline of the context would pass before a token
  is free). \<^verbatim>\<open>Do\<close> drops that error at line 240, sends the request all the same and
  returns the response, not an error.\<close>

theorem Do_sends_after_failed_Wait:
  "Do (script_env [Inr (mk_resp 200 [] [])]
         [Some (ContextErr ''rate: Wait(n=1) would exceed context deadline'')] [])
      client0 (req0\<lparr>Ctx := WithCancel 1\<rparr>) w0
   = (Return (Inr (mk_resp 200 [] [])), \<lparr>sent = 1, waited = 1, drawn = 0\<rparr>,
      [Wait (WithCancel 1) (Some (ContextErr ''rate: Wait(n=1) would exceed context deadline'')),
       RoundTrip 0 (req0\<lparr>Ctx := WithCancel 1\<rparr>)])"
  by (simp add: eval_defs cong: weak_congs)

subsection \<open>Closing response bodies\<close>

text \<open>Claim C9 at an input where the code departs from it. The first send is answered
  by 429 with \<^verbatim>\<open>Retry-After: 1\<close>, the second by 200. Two bodies are opened, numbers 0
  and 1; only number 1, the one that reaches the decoder, is closed.\<close>

theorem CallAPI_leaves_throttled_body_open:
  "opened (snd (snd (CallAPIWithContext
        (script_env [Inr (throttled ''1''), Inr (mk_resp 200 [] [])] [] [0])
        client0 Background ''GET'' ''/v1/domains'' None None w0))) = [0, 1]
   \<and> closed (snd (snd (CallAPIWithContext
        (script_env [Inr (throttled ''1''), Inr (mk_resp 200 [] [])] [] [0])
        client0 Background ''GET'' ''/v1/domains'' None None w0))) = [1]"
  by (simp add: CallAPIWithContext_def NewRequest_def http_NewRequest_def validMethod_def
        is_token_char_def Header_Set_def UnmarshalResponse_def opened_def closed_def
        eval_defs cong: weak_congs)

subsection \<open>What a call changes in the client\<close>

text \<open>Claim C8 as stated fails: \<^verbatim>\<open>NewRequest\<close> writes the timeout of the client into
  the \<^verbatim>\<open>http.Client\<close> underneath, which had none.\<close>

theorem NewRequest_sets_transport_timeout_counterexample:
  "http_Timeout (Client client0) = 0
   \<and> http_Timeout (Client (snd (NewRequest (script_env [] [] []) client0 ''GET'' ''/v1/domains'' None)))
       = 180000000000"
  by (simp add: NewRequest_def http_NewRequest_def validMethod_def is_token_char_def
        script_env_def client0_def DefaultTimeout_def Second_def)

lemma NewRequest_frame:
  "snd (NewRequest e c method path reqBody) =
     (case fst (NewRequest e c method path reqBody) of
        Inl err \<Rightarrow> c
      | Inr req \<Rightarrow> c\<lparr>Client := (Client c)\<lparr>http_Timeout := Timeout c\<rparr>\<rparr>)"
  by (simp add: NewRequest_def Let_def split: option.splits sum.splits)

text \<open>Claim C8, as amended. A call through the client changes nothing in the client but
  the timeout of the \<^verbatim>\<open>http.Client\<close> underneath, which is set to the timeout of the
  client once the request has been built; key, secret, endpoint, timeout, limiter
  parameters and logger stay as they are, and a call that fails to build its request
  changes nothing.\<close>

theorem CallAPIWithContext_client_frame:
  "snd (fst (CallAPIWithContext e c ctx method path reqBody resType w)) =
     (case fst (NewRequest e c method path reqBody) of
        Inl err \<Rightarrow> c
      | Inr req \<Rightarrow> c\<lparr>Client := (Client c)\<lparr>http_Timeout := Timeout c\<rparr>\<rparr>)"
proof -
  have "snd (fst (CallAPIWithContext e c ctx method path reqBody resType w))
          = snd (NewRequest e c method path reqBody)"
    by (simp add: CallAPIWithContext_def Let_def
          split: prod.splits sum.splits outcome.splits)
  then show ?thesis by (simp only: NewRequest_frame)
qed

subsection \<open>Construction\<close>

text \<open>After a failed validation, construction fails only for an API error with a code
  other than \<^verbatim>\<open>QUOTA_EXCEEDED\<close>.\<close>

lemma NewClient_after_validation:
  assumes "validate e
             \<lparr>APIKey = k, APISecret = s,
              APIEndPoint = (if useOTE then ''https://api.ote-godaddy.com'' else ''https://api.godaddy.com''),
              Client = \<lparr>http_Timeout = 0\<rparr>, Ratelimiter = \<lparr>limit_every = Second, burst = 60\<rparr>,
              Logger = None, Timeout = DefaultTimeout\<rparr> w = ((Return (Some err), c1), w1, ev)"
  shows "fst (NewClient e useOTE k s w) =
    (case errors_As err of
       None \<Rightarrow> Return (Inr c1)
     | Some a \<Rightarrow> if Code a = ErrCodeQuotaExceeded then Return (Inr c1) else Return (Inl err))"
  using assms by (simp add: NewClient_def Let_def split: option.splits)

text \<open>Claim C1 at an input where the code departs from it. The validation call fails in
  the transport. \<^verbatim>\<open>errors.As\<close> finds no API error in that failure, the guard of line 141
  is false, and \<^verbatim>\<open>NewClient\<close> returns the client and no error.\<close>

theorem NewClient_swallows_transport_error:
  "fst (NewClient (script_env [Inl (TransportErr ''dial tcp: connection refused'')] [] [])
          False ''key'' ''secret'' w0)
     = Return (Inr (client0\<lparr>Client := \<lparr>http_Timeout = DefaultTimeout\<rparr>\<rparr>))"
  by (simp add: NewClient_def validate_def Get_def CallAPI_def CallAPIWithContext_def
        NewRequest_def http_NewRequest_def validMethod_def is_token_char_def Header_Set_def
        DefaultTimeout_def eval_defs cong: weak_congs)

end
